theory Spec2Isabelle
  imports Main "HOL-Library.Finite_Map" "HOL-Library.Word"
begin

section \<open>The quiz server: sessions and the session manager\<close>

text \<open>
  A shallow embedding of \<^verbatim>\<open>pkg/quiz-server/session.go\<close> and
  \<^verbatim>\<open>pkg/quiz-server/session-manager.go\<close>.

  Go's \<^verbatim>\<open>int\<close> is the 64-bit word (\<^typ>\<open>64 word\<close>): \<^verbatim>\<open>++\<close> and \<^verbatim>\<open>--\<close> wrap
  around, and a comparison reads both sides as signed numbers (\<open>sint\<close>). The
  length of a slice or of a map is its number of elements.

  Go maps are finite maps (\<^typ>\<open>('k, 'v) fmap\<close>); \<^verbatim>\<open>len(m)\<close> is the number of keys.
  A \<^verbatim>\<open>*Session\<close> is an address into an explicit heap, since the manager's two maps and
  the session's own goroutine share the session object.
\<close>

subsection \<open>Data\<close>

record Question =
  Question :: string
  PossibleAnswers :: "string list"
  CorrectAnswer :: "64 word"

record Player =
  Name :: string
  ID :: string
  Score :: "64 word"
  hasVoted :: bool

record SessionConfig =
  maxPlayersPerSession :: "64 word"
  maxTimePerQuestion :: "64 word"
  questions :: "Question list"

text \<open>
  \<^verbatim>\<open>Session\<close> embeds \<^verbatim>\<open>SessionConfig\<close>. Its field \<^verbatim>\<open>ID\<close> is \<open>SessionID\<close> here
  (the player's field has the name already). The channel, mutex, context and cancel
  function are not data of the model: publishing and cancelling are events of the
  trace below.
\<close>

record Session = SessionConfig +
  SessionID :: string
  players :: "(string, Player) fmap"
  currentQuestion :: "64 word"

text \<open>
  The values the code builds with \<^verbatim>\<open>errors.New\<close>, and the error of a failed publish:
  \<^item> \<open>SessionFull\<close>: "Cannot add new player max players reached";
  \<^item> \<open>PlayerNotFound\<close>: "player does not exist";
  \<^item> \<open>AlreadyAnswered\<close>: "player has already voted";
  \<^item> \<open>SessionNotFound\<close>: "session not found";
  \<^item> \<open>CapacityExceeded\<close>: "max sessions reached, could not create a session to join";
  \<^item> \<open>UnknownCommand\<close>: "unknown SessionManagerCommand".
  \<open>None\<close> of type \<open>err option\<close> is Go's \<^verbatim>\<open>nil\<close> error.
\<close>

datatype err =
  SessionFull | PlayerNotFound | AlreadyAnswered | SessionNotFound
  | CapacityExceeded | UnknownCommand | PublishFailure

text \<open>
  What stops a goroutine instead of returning: a run-time panic of an index expression
  or of a method call through a nil pointer, and the explicit \<^verbatim>\<open>panic\<close> of
  \<^verbatim>\<open>endSession\<close>. \<open>RangeNotAKey\<close> is not a behaviour of the program: it marks a run in
  which the environment below names, as the first key of a \<^verbatim>\<open>range\<close> loop, a key the
  map does not have.
\<close>

datatype fault = IndexOutOfRange | NilDereference | EndSessionPanic | RangeNotAKey

subsection \<open>Session: accessors\<close>

definition getCurrentQuestion :: "Session \<Rightarrow> fault + Question" where
  "getCurrentQuestion s =
     (if 0 \<le> sint (currentQuestion s) \<and> sint (currentQuestion s) < int (length (questions s))
      then Inr (questions s ! nat (sint (currentQuestion s)))
      else Inl IndexOutOfRange)"

definition moveToNextQuestion :: "Session \<Rightarrow> Session" where
  "moveToNextQuestion s = s\<lparr>currentQuestion := currentQuestion s + 1\<rparr>"

definition setPlayer :: "Session \<Rightarrow> Player \<Rightarrow> Session" where
  "setPlayer s player = s\<lparr>players := fmupd (ID player) player (players s)\<rparr>"

definition numPlayers :: "Session \<Rightarrow> int" where
  "numPlayers s = int (card (fmdom' (players s)))"

subsection \<open>Session: AddPlayer and SubmitAnswer\<close>

text \<open>
  \<^verbatim>\<open>AddPlayer\<close> returns its error, whether it ran \<^verbatim>\<open>go s.startQuiz()\<close>, and the session.
\<close>

definition Session_AddPlayer :: "Session \<Rightarrow> Player \<Rightarrow> err option \<times> bool \<times> Session" where
  "Session_AddPlayer s player =
     (if numPlayers s < sint (maxPlayersPerSession s)
      then (let s' = s\<lparr>players :=
                  fmupd (ID player)
                    \<lparr>Name = Name player, ID = ID player, Score = 0, hasVoted = False\<rparr>
                    (players s)\<rparr>
            in if numPlayers s' = sint (maxPlayersPerSession s')
               then (None, True, s')
               else (None, False, s'))
      else (Some SessionFull, False, s))"

text \<open>
  \<^verbatim>\<open>SubmitAnswer\<close>, run without another goroutine in between its three locked accesses.
\<close>

definition Session_SubmitAnswer ::
  "Session \<Rightarrow> Player \<Rightarrow> 64 word \<Rightarrow> fault + (err option \<times> Session)" where
  "Session_SubmitAnswer s player answer =
     (case fmlookup (players s) (ID player) of
        None \<Rightarrow> Inr (Some PlayerNotFound, s)
      | Some p \<Rightarrow>
          if hasVoted p then Inr (Some AlreadyAnswered, s)
          else (case getCurrentQuestion s of
                  Inl f \<Rightarrow> Inl f
                | Inr q \<Rightarrow>
                    (let p1 = (if answer = CorrectAnswer q then p\<lparr>Score := Score p + 1\<rparr> else p);
                         p2 = p1\<lparr>hasVoted := True\<rparr>
                     in Inr (None, setPlayer s p2))))"

text \<open>
  The loop at the head of \<^verbatim>\<open>publishQuestion\<close> reads every player, clears the
  flag of the copy and stores the copy under the copy's \<^verbatim>\<open>ID\<close>. The server writes to
  the player map in \<^verbatim>\<open>AddPlayer\<close> and \<^verbatim>\<open>setPlayer\<close> only, and both store a player
  under its own \<^verbatim>\<open>ID\<close> (\<open>keyed\<close> below), so the loop rewrites each entry in place.
\<close>

definition resetVotes :: "Session \<Rightarrow> Session" where
  "resetVotes s = s\<lparr>players := fmmap (\<lambda>p. p\<lparr>hasVoted := False\<rparr>) (players s)\<rparr>"

definition keyed :: "Session \<Rightarrow> bool" where
  "keyed s = (\<forall>k p. fmlookup (players s) k = Some p \<longrightarrow> ID p = k)"

definition NewSession :: "string \<Rightarrow> SessionConfig \<Rightarrow> Session" where
  "NewSession session sessionConfig =
     \<lparr>maxPlayersPerSession = maxPlayersPerSession sessionConfig,
      maxTimePerQuestion = maxTimePerQuestion sessionConfig,
      questions = questions sessionConfig,
      SessionID = session, players = fmempty, currentQuestion = 0\<rparr>"

subsection \<open>The session manager\<close>

datatype SessionManagerCommandType =
  SubmitAnswer | JoinSession | MoveSessionToInProgress | EndSession | OtherCommandType

text \<open>
  \<open>OtherCommandType\<close> stands for every other value of the underlying \<^verbatim>\<open>int\<close>, which
  \<^verbatim>\<open>handleCommand\<close> sends to its \<^verbatim>\<open>default\<close> branch. The reply channel of a command is
  the return value of \<open>handleCommand\<close>.
\<close>

record SessionManagerCommand =
  CommandType :: SessionManagerCommandType
  player :: Player
  answer :: "64 word"
  SessionId :: string

text \<open>The response's field \<^verbatim>\<open>SessionId\<close> is \<open>RespSessionId\<close> here.\<close>

record SessionManagerResponse =
  Error :: "err option"
  RespSessionId :: string

type_synonym addr = nat

text \<open>
  The manager's fields \<^verbatim>\<open>maxPlayersPerSession\<close> and \<^verbatim>\<open>questions\<close> carry the prefix
  \<open>mgr\<close> here (the session configuration has the names already). The command channel
  and the Ably connection are not data of the model.
\<close>

record SessionManager =
  waitingRooms :: "(string, addr) fmap"
  inProgress :: "(string, addr) fmap"
  mgrMaxPlayersPerSession :: "64 word"
  activeCount :: "64 word"
  maxSessions :: "64 word"
  mgrQuestions :: "Question list"

subsection \<open>The world: manager, heap of sessions, and what the environment sees\<close>

datatype payload =
  Text string
  | QuestionPayload string "string list"
  | ScoreBoard "(string, Player) fmap"

text \<open>
  \<open>QuestionPayload\<close> is the struct of that name that \<^verbatim>\<open>publishQuestion\<close> marshals.
  \<open>ScoreBoard\<close> carries the player map that \<^verbatim>\<open>publishScoreBoard\<close> reads; the published
  bytes are the JSON of the name-to-score map built from it.
\<close>

datatype event =
  Published addr string payload
  | PublishFailed addr string
  | Requested addr SessionManagerCommandType string
  | Cancelled addr

text \<open>
  \<open>Published a name data\<close>: the session at \<open>a\<close> published \<open>data\<close> under \<open>name\<close> on its
  channel and the call returned \<^verbatim>\<open>nil\<close>; \<open>PublishFailed\<close>: the call returned an error;
  \<open>Requested a t sid\<close>: the goroutine of the session at \<open>a\<close> sent the manager a command of
  type \<open>t\<close> for \<open>sid\<close>; \<open>Cancelled\<close>: it called \<^verbatim>\<open>s.cancel()\<close>.
\<close>

record world =
  mgr :: SessionManager
  heap :: "addr \<rightharpoonup> Session"
  nextAddr :: addr
  rangeCalls :: nat
  publishCalls :: nat
  started :: "addr list"
  trace :: "event list"

text \<open>
  \<open>nextAddr\<close> counts the sessions allocated so far, \<open>rangeCalls\<close> the \<^verbatim>\<open>range\<close> loops
  over \<^verbatim>\<open>waitingRooms\<close> and \<open>publishCalls\<close> the calls of \<^verbatim>\<open>Publish\<close>; \<open>started\<close> lists
  the sessions for which \<^verbatim>\<open>go s.startQuiz()\<close> has run, in order.

  What the program does not decide is an input: the result of the n-th call of
  \<^verbatim>\<open>generateUniqueID\<close> (its source is not among the package files at hand), the key
  that the n-th \<^verbatim>\<open>range\<close> over \<^verbatim>\<open>waitingRooms\<close> yields first, and whether the n-th
  \<^verbatim>\<open>Publish\<close> fails.
\<close>

record env =
  generateUniqueID :: "nat \<Rightarrow> string"
  rangeFirst :: "nat \<Rightarrow> string"
  publishFails :: "nat \<Rightarrow> bool"

definition createSession :: "env \<Rightarrow> world \<Rightarrow> (string \<times> err option) \<times> world" where
  "createSession e w =
     (let m = mgr w in
      if sint (activeCount m) \<ge> sint (maxSessions m) then (('''', Some CapacityExceeded), w)
      else
        (let sessionID = generateUniqueID e (nextAddr w);
             sessionConfig = \<lparr>maxPlayersPerSession = mgrMaxPlayersPerSession m,
                              maxTimePerQuestion = 3 * 1000000000,
                              questions = mgrQuestions m\<rparr>;
             session = NewSession sessionID sessionConfig
         in ((sessionID, None),
             w\<lparr>mgr := m\<lparr>waitingRooms := fmupd sessionID (nextAddr w) (waitingRooms m),
                        activeCount := activeCount m + 1\<rparr>,
               heap := (heap w)(nextAddr w \<mapsto> session),
               nextAddr := nextAddr w + 1\<rparr>)))"

text \<open>A method call through a \<^verbatim>\<open>*Session\<close>: \<^verbatim>\<open>session.AddPlayer(cmd.player)\<close>.\<close>

definition AddPlayer_at :: "addr \<Rightarrow> Player \<Rightarrow> world \<Rightarrow> fault + (err option \<times> world)" where
  "AddPlayer_at a p w =
     (case heap w a of
        None \<Rightarrow> Inl NilDereference
      | Some s \<Rightarrow>
          (case Session_AddPlayer s p of
             (er, go, s') \<Rightarrow>
               Inr (er, w\<lparr>heap := (heap w)(a \<mapsto> s'),
                          started := started w @ (if go then [a] else [])\<rparr>)))"

definition handleCommand ::
  "env \<Rightarrow> world \<Rightarrow> SessionManagerCommand \<Rightarrow> fault + (SessionManagerResponse \<times> world)" where
  "handleCommand e w cmd =
     (let m = mgr w in
      case CommandType cmd of
        EndSession \<Rightarrow>
          Inr (\<lparr>Error = None, RespSessionId = ''''\<rparr>,
               w\<lparr>mgr := m\<lparr>activeCount := activeCount m - 1,
                          inProgress := fmdrop (SessionId cmd) (inProgress m)\<rparr>\<rparr>)
      | MoveSessionToInProgress \<Rightarrow>
          (case fmlookup (waitingRooms m) (SessionId cmd) of
             None \<Rightarrow> Inr (\<lparr>Error = Some SessionNotFound, RespSessionId = ''''\<rparr>, w)
           | Some session \<Rightarrow>
               Inr (\<lparr>Error = None, RespSessionId = ''''\<rparr>,
                    w\<lparr>mgr := m\<lparr>inProgress := fmupd (SessionId cmd) session (inProgress m),
                               waitingRooms := fmdrop (SessionId cmd) (waitingRooms m)\<rparr>\<rparr>))
      | SubmitAnswer \<Rightarrow>
          (case fmlookup (inProgress m) (SessionId cmd) of
             None \<Rightarrow> Inr (\<lparr>Error = Some SessionNotFound, RespSessionId = ''''\<rparr>, w)
           | Some session \<Rightarrow>
               (case heap w session of
                  None \<Rightarrow> Inl NilDereference
                | Some s \<Rightarrow>
                    (case Session_SubmitAnswer s (player cmd) (answer cmd) of
                       Inl f \<Rightarrow> Inl f
                     | Inr (er, s') \<Rightarrow>
                         Inr (\<lparr>Error = er, RespSessionId = ''''\<rparr>,
                              w\<lparr>heap := (heap w)(session \<mapsto> s')\<rparr>))))
      | JoinSession \<Rightarrow>
          if waitingRooms m \<noteq> fmempty
          then
            (let sessionToJoinID = rangeFirst e (rangeCalls w);
                 w1 = w\<lparr>rangeCalls := rangeCalls w + 1\<rparr>
             in case fmlookup (waitingRooms m) sessionToJoinID of
                  None \<Rightarrow> Inl RangeNotAKey
                | Some sessionToJoin \<Rightarrow>
                    (case AddPlayer_at sessionToJoin (player cmd) w1 of
                       Inl f \<Rightarrow> Inl f
                     | Inr (er, w2) \<Rightarrow>
                         Inr (\<lparr>Error = er, RespSessionId = sessionToJoinID\<rparr>, w2)))
          else
            (case createSession e w of
               ((sessionID, Some er), w1) \<Rightarrow>
                 Inr (\<lparr>Error = Some er, RespSessionId = ''''\<rparr>, w1)
             | ((sessionID, None), w1) \<Rightarrow>
                 (case fmlookup (waitingRooms (mgr w1)) sessionID of
                    None \<Rightarrow> Inl NilDereference
                  | Some session \<Rightarrow>
                      (case AddPlayer_at session (player cmd) w1 of
                         Inl f \<Rightarrow> Inl f
                       | Inr (er, w2) \<Rightarrow>
                           Inr (\<lparr>Error = er, RespSessionId = sessionID\<rparr>, w2))))
      | OtherCommandType \<Rightarrow>
          Inr (\<lparr>Error = Some UnknownCommand, RespSessionId = ''''\<rparr>, w))"

subsection \<open>The session's goroutine: publishing, the question loop, teardown\<close>

text \<open>
  \<^verbatim>\<open>s.publishChannel.Publish(s.ctx, name, data)\<close> by the session at \<open>a\<close>. The sleeps and
  the per-question timer take time and change nothing, so they leave no mark here.
  \<open>startQuiz\<close> below is the goroutine run with no command of another party in between;
  the commands it sends are handled by \<open>handleCommand\<close> at the place where it waits
  for the reply.
\<close>

definition Publish :: "env \<Rightarrow> addr \<Rightarrow> string \<Rightarrow> payload \<Rightarrow> world \<Rightarrow> err option \<times> world" where
  "Publish e a name data w =
     (if publishFails e (publishCalls w)
      then (Some PublishFailure,
            w\<lparr>publishCalls := publishCalls w + 1,
              trace := trace w @ [PublishFailed a name]\<rparr>)
      else (None,
            w\<lparr>publishCalls := publishCalls w + 1,
              trace := trace w @ [Published a name data]\<rparr>))"

definition publishScoreBoard :: "env \<Rightarrow> addr \<Rightarrow> world \<Rightarrow> fault + world" where
  "publishScoreBoard e a w =
     (case heap w a of
        None \<Rightarrow> Inl NilDereference
      | Some s \<Rightarrow> Inr (snd (Publish e a ''quiz-update'' (ScoreBoard (players s)) w)))"

definition publishQuestion :: "env \<Rightarrow> addr \<Rightarrow> world \<Rightarrow> fault + (err option \<times> world)" where
  "publishQuestion e a w =
     (case heap w a of
        None \<Rightarrow> Inl NilDereference
      | Some s \<Rightarrow>
          (let s1 = resetVotes s;
               w1 = w\<lparr>heap := (heap w)(a \<mapsto> s1)\<rparr>
           in case getCurrentQuestion s1 of
                Inl f \<Rightarrow> Inl f
              | Inr q \<Rightarrow>
                  Inr (Publish e a ''new_question''
                         (QuestionPayload (Question q) (PossibleAnswers q)) w1)))"

definition zeroPlayer :: Player where
  "zeroPlayer = \<lparr>Name = '''', ID = '''', Score = 0, hasVoted = False\<rparr>"

text \<open>
  The command a session's goroutine sends: only \<^verbatim>\<open>CommandType\<close> and \<^verbatim>\<open>SessionId\<close>
  are set, the other fields have their zero values.
\<close>

definition sessionCommand :: "SessionManagerCommandType \<Rightarrow> string \<Rightarrow> SessionManagerCommand" where
  "sessionCommand t sessionId =
     \<lparr>CommandType = t, player = zeroPlayer, answer = 0, SessionId = sessionId\<rparr>"

definition endSession :: "env \<Rightarrow> addr \<Rightarrow> world \<Rightarrow> fault + world" where
  "endSession e a w =
     (case heap w a of
        None \<Rightarrow> Inl NilDereference
      | Some s \<Rightarrow>
          (let w1 = snd (Publish e a ''quiz-end'' (Text ''thank you for playing'') w);
               w2 = w1\<lparr>trace := trace w1 @ [Requested a EndSession (SessionID s)]\<rparr>
           in case handleCommand e w2 (sessionCommand EndSession (SessionID s)) of
                Inl f \<Rightarrow> Inl f
              | Inr (response, w3) \<Rightarrow>
                  if Error response \<noteq> None then Inl EndSessionPanic
                  else Inr (w3\<lparr>trace := trace w3 @ [Cancelled a]\<rparr>)))"

definition moveToNextQuestion_at :: "addr \<Rightarrow> world \<Rightarrow> world" where
  "moveToNextQuestion_at a w =
     (case heap w a of
        None \<Rightarrow> w
      | Some s \<Rightarrow> w\<lparr>heap := (heap w)(a \<mapsto> moveToNextQuestion s)\<rparr>)"

text \<open>
  What bounds the loop below: a cursor that is not negative moves up towards the end of
  the range, and after the wrap-around it is negative, where \<^verbatim>\<open>publishQuestion\<close>
  panics.
\<close>

definition remaining :: "addr \<Rightarrow> world \<Rightarrow> nat" where
  "remaining a w =
     (case heap w a of
        None \<Rightarrow> 0
      | Some s \<Rightarrow>
          if sint (currentQuestion s) < 0 then 0
          else nat (2 ^ 63 - sint (currentQuestion s)))"

text \<open>
  The \<^verbatim>\<open>for\<close> loop of \<^verbatim>\<open>startQuiz\<close> together with the two calls after it.
\<close>

function questionLoop :: "env \<Rightarrow> addr \<Rightarrow> world \<Rightarrow> fault + world" where
  "questionLoop e a w =
     (case heap w a of
        None \<Rightarrow> Inl NilDereference
      | Some s \<Rightarrow>
          if sint (currentQuestion s) \<ge> int (length (questions s))
          then (case publishScoreBoard e a w of
                  Inl f \<Rightarrow> Inl f
                | Inr w1 \<Rightarrow> endSession e a w1)
          else (case publishQuestion e a w of
                  Inl f \<Rightarrow> Inl f
                | Inr (er, w1) \<Rightarrow>
                    if er \<noteq> None then endSession e a w1
                    else questionLoop e a (moveToNextQuestion_at a w1)))"
  by pat_completeness auto
termination
proof (relation "measure (\<lambda>(e, a, w). remaining a w)", goal_cases)
  case 1
  show ?case by simp
next
  case (2 e a w s x er w1)
  have inc: "sint (c + 1) = (if sint c = 2 ^ 63 - 1 then - (2 ^ 63) else sint c + 1)"
    for c :: "64 word"
  proof -
    have b: "- (2 ^ 63) \<le> sint c" "sint c < 2 ^ 63"
      using sint_ge [of c] sint_lt [of c] by simp_all
    have e: "sint (c + 1) = signed_take_bit 63 (sint c + 1)"
      by (simp add: sint_word_ariths)
    show ?thesis
    proof (cases "sint c = 2 ^ 63 - 1")
      case True
      then show ?thesis unfolding e by simp
    next
      case False
      with b have "- (2 ^ 63) \<le> sint c + 1" "sint c + 1 < 2 ^ 63" by simp_all
      then have "signed_take_bit 63 (sint c + 1) = sint c + 1"
        by (simp add: signed_take_bit_int_eq_self)
      with False e show ?thesis by simp
    qed
  qed
  from 2 have pq: "publishQuestion e a w = Inr (er, w1)" and hs: "heap w a = Some s"
    by simp_all
  from pq hs have h1: "heap w1 a = Some (resetVotes s)"
    and nonneg: "0 \<le> sint (currentQuestion s)"
    by (auto simp: publishQuestion_def resetVotes_def Publish_def Let_def
                   getCurrentQuestion_def
             split: sum.splits if_splits)
  have top: "sint (currentQuestion s) < 2 ^ 63"
    using sint_lt [of "currentQuestion s"] by simp
  from hs h1 nonneg top show ?case
    by (simp add: remaining_def moveToNextQuestion_at_def moveToNextQuestion_def
                  resetVotes_def inc)
qed

declare questionLoop.simps [simp del]

definition startQuiz :: "env \<Rightarrow> addr \<Rightarrow> world \<Rightarrow> fault + world" where
  "startQuiz e a w =
     (case heap w a of
        None \<Rightarrow> Inl NilDereference
      | Some s \<Rightarrow>
          (let w0 = w\<lparr>trace := trace w @ [Requested a MoveSessionToInProgress (SessionID s)]\<rparr>
           in case handleCommand e w0 (sessionCommand MoveSessionToInProgress (SessionID s)) of
                Inl f \<Rightarrow> Inl f
              | Inr (response, w1) \<Rightarrow>
                  if Error response \<noteq> None then endSession e a w1
                  else
                    (case Publish e a ''quiz-update'' (Text ''Quiz starting in 3 seconds'') w1 of
                       (er, w2) \<Rightarrow>
                         (case (if er \<noteq> None then endSession e a w2 else Inr w2) of
                            Inl f \<Rightarrow> Inl f
                          | Inr w3 \<Rightarrow> questionLoop e a w3))))"

subsection \<open>Starting the manager, and the commands of the HTTP handlers\<close>

definition NewSessionManager :: "64 word \<Rightarrow> 64 word \<Rightarrow> Question list \<Rightarrow> SessionManager" where
  "NewSessionManager maxSessions' maxPlayersPerSession' loadedQuestions =
     \<lparr>waitingRooms = fmempty, inProgress = fmempty,
      mgrMaxPlayersPerSession = maxPlayersPerSession', activeCount = 0,
      maxSessions = maxSessions', mgrQuestions = loadedQuestions\<rparr>"

text \<open>The world right after \<^verbatim>\<open>NewSessionManager\<close>: an empty registry, nothing allocated.\<close>

definition initWorld :: "64 word \<Rightarrow> 64 word \<Rightarrow> Question list \<Rightarrow> world" where
  "initWorld ms mp qs =
     \<lparr>mgr = NewSessionManager ms mp qs, heap = Map.empty, nextAddr = 0, rangeCalls = 0,
      publishCalls = 0, started = [], trace = []\<rparr>"

text \<open>
  \<^verbatim>\<open>RunSessionManager\<close> takes the commands off the channel one at a time and answers
  each; a panic of \<open>handleCommand\<close> ends it.
\<close>

fun RunSessionManager ::
  "env \<Rightarrow> world \<Rightarrow> SessionManagerCommand list \<Rightarrow> fault + (SessionManagerResponse list \<times> world)" where
  "RunSessionManager e w [] = Inr ([], w)"
| "RunSessionManager e w (cmd # cmds) =
     (case handleCommand e w cmd of
        Inl f \<Rightarrow> Inl f
      | Inr (response, w1) \<Rightarrow>
          (case RunSessionManager e w1 cmds of
             Inl f \<Rightarrow> Inl f
           | Inr (responses, w2) \<Rightarrow> Inr (response # responses, w2)))"

text \<open>
  The commands that \<^verbatim>\<open>ConnectToSessionHandler\<close> and \<^verbatim>\<open>SubmitAnswerHandler\<close> of
  \<^verbatim>\<open>quiz-server.go\<close> build from a request.
\<close>

definition joinCommand :: "string \<Rightarrow> string \<Rightarrow> SessionManagerCommand" where
  "joinCommand playerName playerId =
     \<lparr>CommandType = JoinSession,
      player = \<lparr>Name = playerName, ID = playerId, Score = 0, hasVoted = False\<rparr>,
      answer = 0, SessionId = ''''\<rparr>"

definition submitCommand :: "string \<Rightarrow> string \<Rightarrow> 64 word \<Rightarrow> SessionManagerCommand" where
  "submitCommand sessionId playerId ans =
     \<lparr>CommandType = SubmitAnswer,
      player = \<lparr>Name = '''', ID = playerId, Score = 0, hasVoted = False\<rparr>,
      answer = ans, SessionId = sessionId\<rparr>"

definition joinOf :: "Player \<Rightarrow> SessionManagerCommand" where
  "joinOf p = joinCommand (Name p) (ID p)"

subsection \<open>The registry invariant of the specification\<close>

text \<open>
  No session id is in both partitions, and \<^verbatim>\<open>activeCount\<close> is the number of waiting
  sessions plus the number of sessions in progress.
\<close>

definition registry_inv :: "SessionManager \<Rightarrow> bool" where
  "registry_inv m =
     (fmdom' (waitingRooms m) \<inter> fmdom' (inProgress m) = {}
      \<and> sint (activeCount m) =
          int (card (fmdom' (waitingRooms m))) + int (card (fmdom' (inProgress m))))"

subsection \<open>Reading a trace\<close>

text \<open>The events in which a goroutine asks the manager to move its session.\<close>

fun moveRequest :: "event \<Rightarrow> bool" where
  "moveRequest (Requested a t sid) = (t = MoveSessionToInProgress)"
| "moveRequest (Published a name data) = False"
| "moveRequest (PublishFailed a name) = False"
| "moveRequest (Cancelled a) = False"

subsection \<open>Concrete inputs\<close>

definition demoQuestion :: Question where
  "demoQuestion =
     \<lparr>Question = ''2 + 2 = ?'', PossibleAnswers = [''3'', ''4''], CorrectAnswer = 1\<rparr>"

text \<open>
  Three environments: the first \<^verbatim>\<open>Publish\<close> fails and the later ones succeed; every
  \<^verbatim>\<open>Publish\<close> fails; none fails.
\<close>

definition firstPublishFails :: env where
  "firstPublishFails =
     \<lparr>generateUniqueID = (\<lambda>n. ''s1''), rangeFirst = (\<lambda>n. ''s1''),
      publishFails = (\<lambda>n. n = 0)\<rparr>"

definition nothingPublishes :: env where
  "nothingPublishes =
     \<lparr>generateUniqueID = (\<lambda>n. ''s1''), rangeFirst = (\<lambda>n. ''s1''),
      publishFails = (\<lambda>n. True)\<rparr>"

definition reliable :: env where
  "reliable =
     \<lparr>generateUniqueID = (\<lambda>n. ''s1''), rangeFirst = (\<lambda>n. ''s1''),
      publishFails = (\<lambda>n. False)\<rparr>"

definition alice :: Player where
  "alice = \<lparr>Name = ''Alice'', ID = ''a1'', Score = 0, hasVoted = False\<rparr>"

definition bob :: Player where
  "bob = \<lparr>Name = ''Bob'', ID = ''b1'', Score = 0, hasVoted = False\<rparr>"

text \<open>A session for two players that Alice has joined, its first question open.\<close>

definition demoSession :: Session where
  "demoSession =
     \<lparr>maxPlayersPerSession = 2, maxTimePerQuestion = 3000000000, questions = [demoQuestion],
      SessionID = ''s1'', players = fmupd ''a1'' alice fmempty, currentQuestion = 0\<rparr>"

text \<open>
  A server for one session of one player. \<open>aliceJoined\<close> is its world after Alice's
  \<^verbatim>\<open>JoinSession\<close>: the session is full, still waiting, and its goroutine has been
  started. \<open>aliceLastQuestionOver\<close> is the world once that goroutine, every publish
  succeeding, has let the time of the only question pass and moved the cursor on.
\<close>

definition aliceSession :: Session where
  "aliceSession =
     \<lparr>maxPlayersPerSession = 1, maxTimePerQuestion = 3000000000, questions = [demoQuestion],
      SessionID = ''s1'', players = fmupd ''a1'' alice fmempty, currentQuestion = 0\<rparr>"

definition aliceJoined :: world where
  "aliceJoined =
     \<lparr>mgr = \<lparr>waitingRooms = fmupd ''s1'' 0 fmempty, inProgress = fmempty,
             mgrMaxPlayersPerSession = 1, activeCount = 1, maxSessions = 1,
             mgrQuestions = [demoQuestion]\<rparr>,
      heap = [0 \<mapsto> aliceSession], nextAddr = 1, rangeCalls = 0, publishCalls = 0,
      started = [0], trace = []\<rparr>"

definition aliceLastQuestionOver :: world where
  "aliceLastQuestionOver =
     \<lparr>mgr = \<lparr>waitingRooms = fmempty, inProgress = fmupd ''s1'' 0 fmempty,
             mgrMaxPlayersPerSession = 1, activeCount = 1, maxSessions = 1,
             mgrQuestions = [demoQuestion]\<rparr>,
      heap = [0 \<mapsto> aliceSession\<lparr>currentQuestion := 1\<rparr>],
      nextAddr = 1, rangeCalls = 0, publishCalls = 2, started = [0],
      trace = [Requested 0 MoveSessionToInProgress ''s1'',
               Published 0 ''quiz-update'' (Text ''Quiz starting in 3 seconds''),
               Published 0 ''new_question'' (QuestionPayload ''2 + 2 = ?'' [''3'', ''4''])]\<rparr>"

text \<open>The registry the double \<^verbatim>\<open>EndSession\<close> leaves behind.\<close>

definition overdrawn :: SessionManager where
  "overdrawn =
     \<lparr>waitingRooms = fmempty, inProgress = fmempty, mgrMaxPlayersPerSession = 1,
      activeCount = - 1, maxSessions = 1, mgrQuestions = [demoQuestion]\<rparr>"

section \<open>Properties\<close>

subsection \<open>One step up or down in a 64-bit counter\<close>

lemma sint_inc:
  "sint (c + 1 :: 64 word) = (if sint c = 2 ^ 63 - 1 then - (2 ^ 63) else sint c + 1)"
proof -
  have b: "- (2 ^ 63) \<le> sint c" "sint c < 2 ^ 63"
    using sint_ge [of c] sint_lt [of c] by simp_all
  have e: "sint (c + 1) = signed_take_bit 63 (sint c + 1)"
    by (simp add: sint_word_ariths)
  show ?thesis
  proof (cases "sint c = 2 ^ 63 - 1")
    case True
    then show ?thesis unfolding e by simp
  next
    case False
    with b have "- (2 ^ 63) \<le> sint c + 1" "sint c + 1 < 2 ^ 63" by simp_all
    then have "signed_take_bit 63 (sint c + 1) = sint c + 1"
      by (simp add: signed_take_bit_int_eq_self)
    with False e show ?thesis by simp
  qed
qed

lemma sint_dec:
  "sint (c - 1 :: 64 word) = (if sint c = - (2 ^ 63) then 2 ^ 63 - 1 else sint c - 1)"
proof -
  have b: "- (2 ^ 63) \<le> sint c" "sint c < 2 ^ 63"
    using sint_ge [of c] sint_lt [of c] by simp_all
  have e: "sint (c - 1) = signed_take_bit 63 (sint c - 1)"
    by (simp add: sint_word_ariths)
  show ?thesis
  proof (cases "sint c = - (2 ^ 63)")
    case True
    then show ?thesis unfolding e by simp
  next
    case False
    with b have "- (2 ^ 63) \<le> sint c - 1" "sint c - 1 < 2 ^ 63" by simp_all
    then have "signed_take_bit 63 (sint c - 1) = sint c - 1"
      by (simp add: signed_take_bit_int_eq_self)
    with False e show ?thesis by simp
  qed
qed

lemma sint_inc_below: "sint c < sint d \<Longrightarrow> sint (c + 1 :: 64 word) = sint c + 1"
  for d :: "64 word"
  using sint_lt [of d] by (simp add: sint_inc)

lemma sint_dec_above: "sint d < sint c \<Longrightarrow> sint (c - 1 :: 64 word) = sint c - 1"
  for d :: "64 word"
  using sint_ge [of d] by (simp add: sint_dec)

subsection \<open>Players are stored under their own id\<close>

lemma keyed_NewSession: "keyed (NewSession sid cfg)"
  by (simp add: keyed_def NewSession_def)

lemma keyed_AddPlayer: "keyed s \<Longrightarrow> keyed (snd (snd (Session_AddPlayer s pl)))"
  by (auto simp: keyed_def Session_AddPlayer_def Let_def split: if_splits)

lemma keyed_SubmitAnswer:
  "keyed s \<Longrightarrow> Session_SubmitAnswer s pl ans = Inr (er, s') \<Longrightarrow> keyed s'"
  by (auto simp: keyed_def Session_SubmitAnswer_def setPlayer_def Let_def
           split: option.splits if_splits sum.splits)

lemma keyed_resetVotes: "keyed s \<Longrightarrow> keyed (resetVotes s)"
  by (auto simp: keyed_def resetVotes_def)

subsection \<open>The concrete worlds are worlds of a run\<close>

lemma aliceJoined_reached:
  "handleCommand reliable (initWorld 1 1 [demoQuestion]) (joinCommand ''Alice'' ''a1'') =
     Inr (\<lparr>Error = None, RespSessionId = ''s1''\<rparr>, aliceJoined)"
  by (simp add: handleCommand_def createSession_def AddPlayer_at_def Session_AddPlayer_def
                NewSession_def numPlayers_def Let_def initWorld_def NewSessionManager_def
                joinCommand_def fmdrop_fmupd
                aliceJoined_def aliceSession_def alice_def reliable_def)

lemma aliceJoined_reached_unreliable:
  "handleCommand firstPublishFails (initWorld 1 1 [demoQuestion]) (joinCommand ''Alice'' ''a1'') =
     Inr (\<lparr>Error = None, RespSessionId = ''s1''\<rparr>, aliceJoined)"
  by (simp add: handleCommand_def createSession_def AddPlayer_at_def Session_AddPlayer_def
                NewSession_def numPlayers_def Let_def initWorld_def NewSessionManager_def
                joinCommand_def fmdrop_fmupd
                aliceJoined_def aliceSession_def alice_def firstPublishFails_def)

subsection \<open>Submitting an answer\<close>

text \<open>
  While the cursor points at a question, \<^verbatim>\<open>SubmitAnswer\<close> by a player who is stored
  under the submitted id and has not answered succeeds: \<^verbatim>\<open>Score++\<close> when the index is
  the question's \<^verbatim>\<open>CorrectAnswer\<close>, no change of the score for every other index, in or
  out of the range of the options; the flag is set, and nothing else in the session
  changes.
\<close>

lemma SubmitAnswer_scores_while_question_open:
  assumes "fmlookup (players s) (ID pl) = Some p"
      and "ID p = ID pl"
      and "\<not> hasVoted p"
      and "0 \<le> sint (currentQuestion s)"
      and "sint (currentQuestion s) < int (length (questions s))"
  shows "Session_SubmitAnswer s pl ans =
           Inr (None,
                s\<lparr>players :=
                    fmupd (ID pl)
                      (p\<lparr>Score := (if ans = CorrectAnswer (questions s ! nat (sint (currentQuestion s)))
                                     then Score p + 1 else Score p),
                         hasVoted := True\<rparr>)
                      (players s)\<rparr>)"
  using assms
  by (simp add: Session_SubmitAnswer_def getCurrentQuestion_def setPlayer_def Let_def)

lemma SubmitAnswer_scores_example:
  "Session_SubmitAnswer demoSession (player (submitCommand ''s1'' ''a1'' 1)) 1 =
     Inr (None, demoSession\<lparr>players := fmupd ''a1'' (alice\<lparr>Score := 1, hasVoted := True\<rparr>) fmempty\<rparr>)
   \<and> Session_SubmitAnswer demoSession (player (submitCommand ''s1'' ''a1'' 7)) 7 =
     Inr (None, demoSession\<lparr>players := fmupd ''a1'' (alice\<lparr>hasVoted := True\<rparr>) fmempty\<rparr>)"
  using SubmitAnswer_scores_while_question_open
          [of demoSession "player (submitCommand ''s1'' ''a1'' 1)" alice 1]
        SubmitAnswer_scores_while_question_open
          [of demoSession "player (submitCommand ''s1'' ''a1'' 7)" alice 7]
  by (simp add: demoSession_def demoQuestion_def alice_def submitCommand_def)

text \<open>
  C1. The code does not return success in every session in progress. With every publish
  succeeding, the goroutine of Alice's session reaches the exit of its loop in the world
  \<open>aliceLastQuestionOver\<close>. Her session is in \<^verbatim>\<open>inProgress\<close>, she is a player of it and
  her flag is clear, and the cursor is past the only question: \<^verbatim>\<open>SubmitAnswer\<close> for
  her panics in \<^verbatim>\<open>getCurrentQuestion\<close>; it returns nothing, and neither her score nor
  her flag is written.
\<close>

theorem SubmitAnswer_no_success_past_last_question:
  "startQuiz reliable 0 aliceJoined = questionLoop reliable 0 aliceLastQuestionOver
   \<and> fmlookup (inProgress (mgr aliceLastQuestionOver)) ''s1'' = Some 0
   \<and> heap aliceLastQuestionOver 0 = Some (aliceSession\<lparr>currentQuestion := 1\<rparr>)
   \<and> fmlookup (players (aliceSession\<lparr>currentQuestion := 1\<rparr>)) ''a1'' = Some alice
   \<and> hasVoted alice = False
   \<and> Session_SubmitAnswer (aliceSession\<lparr>currentQuestion := 1\<rparr>)
         (player (submitCommand ''s1'' ''a1'' 1)) 1 = Inl IndexOutOfRange"
proof -
  have "startQuiz reliable 0 aliceJoined = questionLoop reliable 0 aliceLastQuestionOver"
    apply (simp add: startQuiz_def Publish_def sessionCommand_def zeroPlayer_def
                     handleCommand_def Let_def fmdrop_fmupd
                     aliceJoined_def aliceSession_def alice_def reliable_def demoQuestion_def)
    apply (subst questionLoop.simps)
    apply (simp add: Publish_def publishQuestion_def resetVotes_def getCurrentQuestion_def
                     moveToNextQuestion_at_def moveToNextQuestion_def fmmap_fmupd Let_def
                     numeral_2_eq_2 aliceLastQuestionOver_def aliceSession_def alice_def
                     demoQuestion_def)
    done
  moreover
  have "Session_SubmitAnswer (aliceSession\<lparr>currentQuestion := 1\<rparr>)
          (player (submitCommand ''s1'' ''a1'' 1)) 1 = Inl IndexOutOfRange"
    by (simp add: submitCommand_def aliceSession_def alice_def Session_SubmitAnswer_def
                  getCurrentQuestion_def)
  ultimately show ?thesis
    by (simp add: aliceLastQuestionOver_def aliceSession_def alice_def)
qed

text \<open>
  C2. A player whose flag is set submits again: the session answers
  \<open>AlreadyAnswered\<close> and is unchanged, whatever the index; and when the manager routes
  the command to that session, it passes the error on and the whole world is unchanged.
\<close>

theorem SubmitAnswer_second_rejected:
  assumes "fmlookup (players s) (ID pl) = Some p"
      and "hasVoted p"
  shows "Session_SubmitAnswer s pl ans = Inr (Some AlreadyAnswered, s)
       \<and> (\<forall>e w cmd a.
             CommandType cmd = SubmitAnswer \<and> player cmd = pl
             \<and> fmlookup (inProgress (mgr w)) (SessionId cmd) = Some a \<and> heap w a = Some s
             \<longrightarrow> handleCommand e w cmd =
                   Inr (\<lparr>Error = Some AlreadyAnswered, RespSessionId = ''''\<rparr>, w))"
proof -
  have same: "Session_SubmitAnswer s pl x = Inr (Some AlreadyAnswered, s)" for x
    using assms by (simp add: Session_SubmitAnswer_def)
  have "handleCommand e w cmd = Inr (\<lparr>Error = Some AlreadyAnswered, RespSessionId = ''''\<rparr>, w)"
    if c: "CommandType cmd = SubmitAnswer" "player cmd = pl"
          "fmlookup (inProgress (mgr w)) (SessionId cmd) = Some a" "heap w a = Some s"
    for e w cmd a
  proof -
    have "(heap w)(a \<mapsto> s) = heap w"
      using c(4) by (rule map_upd_triv)
    with same c show ?thesis
      by (simp add: handleCommand_def)
  qed
  with same show ?thesis by blast
qed

theorem SubmitAnswer_second_rejected_witness:
  "Session_SubmitAnswer (aliceSession\<lparr>players := fmupd ''a1'' (alice\<lparr>hasVoted := True\<rparr>) fmempty\<rparr>)
      (player (submitCommand ''s1'' ''a1'' 1)) 1 =
     Inr (Some AlreadyAnswered,
          aliceSession\<lparr>players := fmupd ''a1'' (alice\<lparr>hasVoted := True\<rparr>) fmempty\<rparr>)
   \<and> handleCommand reliable
        (aliceLastQuestionOver\<lparr>heap :=
           [0 \<mapsto> aliceSession\<lparr>players := fmupd ''a1'' (alice\<lparr>hasVoted := True\<rparr>) fmempty\<rparr>]\<rparr>)
        (submitCommand ''s1'' ''a1'' 1) =
     Inr (\<lparr>Error = Some AlreadyAnswered, RespSessionId = ''''\<rparr>,
          aliceLastQuestionOver\<lparr>heap :=
            [0 \<mapsto> aliceSession\<lparr>players := fmupd ''a1'' (alice\<lparr>hasVoted := True\<rparr>) fmempty\<rparr>]\<rparr>)"
proof -
  let ?s = "aliceSession\<lparr>players := fmupd ''a1'' (alice\<lparr>hasVoted := True\<rparr>) fmempty\<rparr>"
  let ?w = "aliceLastQuestionOver\<lparr>heap := [0 \<mapsto> ?s]\<rparr>"
  let ?cmd = "submitCommand ''s1'' ''a1'' 1"
  have h1: "fmlookup (players ?s) (ID (player ?cmd)) = Some (alice\<lparr>hasVoted := True\<rparr>)"
    by (simp add: submitCommand_def aliceSession_def)
  have h2: "hasVoted (alice\<lparr>hasVoted := True\<rparr>)" by simp
  note r = SubmitAnswer_second_rejected [OF h1 h2]
  have first: "Session_SubmitAnswer ?s (player ?cmd) 1 = Inr (Some AlreadyAnswered, ?s)"
    using r by blast
  have c: "CommandType ?cmd = SubmitAnswer \<and> player ?cmd = player ?cmd
           \<and> fmlookup (inProgress (mgr ?w)) (SessionId ?cmd) = Some 0 \<and> heap ?w 0 = Some ?s"
    by (simp add: submitCommand_def aliceLastQuestionOver_def)
  have second: "handleCommand reliable ?w ?cmd =
                  Inr (\<lparr>Error = Some AlreadyAnswered, RespSessionId = ''''\<rparr>, ?w)"
    using r c by blast
  from first second show ?thesis by simp
qed

subsection \<open>Adding a player\<close>

text \<open>
  C9. \<^verbatim>\<open>AddPlayer\<close> with an id the session already has, below capacity: the call
  succeeds, the entry is replaced by one with the new name, score 0 and a clear flag,
  the number of players is as before, and \<^verbatim>\<open>startQuiz\<close> is not started.
\<close>

theorem AddPlayer_known_id:
  assumes "fmlookup (players s) (ID pl) = Some p"
      and "numPlayers s < sint (maxPlayersPerSession s)"
  shows "Session_AddPlayer s pl =
           (None, False,
            s\<lparr>players :=
                fmupd (ID pl)
                  \<lparr>Name = Name pl, ID = ID pl, Score = 0, hasVoted = False\<rparr>
                  (players s)\<rparr>)
         \<and> numPlayers (snd (snd (Session_AddPlayer s pl))) = numPlayers s"
proof -
  from assms(1) have "ID pl \<in> fmdom' (players s)" by (rule fmdom'I)
  then have "insert (ID pl) (fmdom' (players s)) = fmdom' (players s)" by auto
  with assms(2) show ?thesis
    by (simp add: Session_AddPlayer_def numPlayers_def Let_def)
qed

theorem AddPlayer_known_id_witness:
  "Session_AddPlayer (demoSession\<lparr>players := fmupd ''a1'' (alice\<lparr>Score := 1\<rparr>) fmempty\<rparr>)
      \<lparr>Name = ''Alicia'', ID = ''a1'', Score = 5, hasVoted = True\<rparr> =
     (None, False,
      demoSession\<lparr>players :=
        fmupd ''a1'' \<lparr>Name = ''Alicia'', ID = ''a1'', Score = 0, hasVoted = False\<rparr> fmempty\<rparr>)
   \<and> numPlayers (snd (snd (Session_AddPlayer
        (demoSession\<lparr>players := fmupd ''a1'' (alice\<lparr>Score := 1\<rparr>) fmempty\<rparr>)
        \<lparr>Name = ''Alicia'', ID = ''a1'', Score = 5, hasVoted = True\<rparr>))) = 1"
  using AddPlayer_known_id
          [of "demoSession\<lparr>players := fmupd ''a1'' (alice\<lparr>Score := 1\<rparr>) fmempty\<rparr>"
              "\<lparr>Name = ''Alicia'', ID = ''a1'', Score = 5, hasVoted = True\<rparr>"
              "alice\<lparr>Score := 1\<rparr>"]
  by (simp add: demoSession_def alice_def numPlayers_def)

subsection \<open>The manager's commands\<close>

text \<open>
  C7. A \<^verbatim>\<open>SubmitAnswer\<close> command whose session id is not a key of \<^verbatim>\<open>inProgress\<close>
  (the session has ended, is still waiting, or never was) is answered with
  \<open>SessionNotFound\<close>, and the world (the manager, every session and every player) is
  left as it was.
\<close>

theorem SubmitAnswer_session_not_in_progress:
  assumes "CommandType cmd = SubmitAnswer"
      and "fmlookup (inProgress (mgr w)) (SessionId cmd) = None"
  shows "handleCommand e w cmd =
           Inr (\<lparr>Error = Some SessionNotFound, RespSessionId = ''''\<rparr>, w)"
  using assms by (simp add: handleCommand_def)

theorem SubmitAnswer_session_not_in_progress_witness:
  "handleCommand reliable aliceJoined (submitCommand ''s1'' ''a1'' 1) =
     Inr (\<lparr>Error = Some SessionNotFound, RespSessionId = ''''\<rparr>, aliceJoined)
   \<and> handleCommand reliable aliceJoined (submitCommand ''nowhere'' ''a1'' 1) =
     Inr (\<lparr>Error = Some SessionNotFound, RespSessionId = ''''\<rparr>, aliceJoined)"
  using SubmitAnswer_session_not_in_progress
          [of "submitCommand ''s1'' ''a1'' 1" aliceJoined reliable]
        SubmitAnswer_session_not_in_progress
          [of "submitCommand ''nowhere'' ''a1'' 1" aliceJoined reliable]
  by (simp add: submitCommand_def aliceJoined_def)

text \<open>
  C6. The configured maximum is not negative, there is no waiting session and
  \<^verbatim>\<open>activeCount\<close> equals \<^verbatim>\<open>maxSessions\<close>. Then a \<^verbatim>\<open>JoinSession\<close> command is answered
  with \<open>CapacityExceeded\<close> and changes nothing. An \<^verbatim>\<open>EndSession\<close> command succeeds and
  lowers \<^verbatim>\<open>activeCount\<close> by one. After it, \<^verbatim>\<open>createSession\<close> succeeds once: the
  next \<^verbatim>\<open>JoinSession\<close> puts a new session into \<^verbatim>\<open>waitingRooms\<close> under a new id and
  answers with that id (its error is that of \<^verbatim>\<open>AddPlayer\<close> on the new session),
  \<^verbatim>\<open>activeCount\<close> is \<^verbatim>\<open>maxSessions\<close> again, and a further \<^verbatim>\<open>createSession\<close> fails.
\<close>

theorem capacity_and_release:
  fixes e :: env
  assumes "waitingRooms (mgr w) = fmempty"
      and "activeCount (mgr w) = maxSessions (mgr w)"
      and "0 \<le> sint (maxSessions (mgr w))"
      and "CommandType join = JoinSession"
      and "CommandType ends = EndSession"
  defines "w1 \<equiv> w\<lparr>mgr := (mgr w)\<lparr>activeCount := activeCount (mgr w) - 1,
                                   inProgress := fmdrop (SessionId ends) (inProgress (mgr w))\<rparr>\<rparr>"
  defines "sid \<equiv> generateUniqueID e (nextAddr w)"
  shows "handleCommand e w join = Inr (\<lparr>Error = Some CapacityExceeded, RespSessionId = ''''\<rparr>, w)
       \<and> handleCommand e w ends = Inr (\<lparr>Error = None, RespSessionId = ''''\<rparr>, w1)
       \<and> sint (activeCount (mgr w1)) = sint (activeCount (mgr w)) - 1
       \<and> createSession e w1 =
           ((sid, None),
            w1\<lparr>mgr := (mgr w1)\<lparr>waitingRooms := fmupd sid (nextAddr w) fmempty,
                                activeCount := maxSessions (mgr w)\<rparr>,
               heap := (heap w)(nextAddr w \<mapsto>
                  NewSession sid
                    \<lparr>maxPlayersPerSession = mgrMaxPlayersPerSession (mgr w),
                     maxTimePerQuestion = 3000000000,
                     questions = mgrQuestions (mgr w)\<rparr>),
               nextAddr := nextAddr w + 1\<rparr>)
       \<and> \<not> isl (handleCommand e w1 join)
       \<and> fst (projr (handleCommand e w1 join)) =
           \<lparr>Error = (if 0 < sint (mgrMaxPlayersPerSession (mgr w)) then None
                     else Some SessionFull),
            RespSessionId = sid\<rparr>
       \<and> waitingRooms (mgr (snd (projr (handleCommand e w1 join)))) =
           fmupd sid (nextAddr w) fmempty
       \<and> activeCount (mgr (snd (projr (handleCommand e w1 join)))) = maxSessions (mgr w)
       \<and> createSession e (snd (projr (handleCommand e w1 join))) =
           (('''', Some CapacityExceeded), snd (projr (handleCommand e w1 join)))"
proof -
  have down: "sint (maxSessions (mgr w) - 1) = sint (maxSessions (mgr w)) - 1"
    using assms(3) by (simp add: sint_dec)
  with assms(1,2,4,5) show ?thesis
    unfolding w1_def sid_def
    by (simp add: handleCommand_def createSession_def AddPlayer_at_def Session_AddPlayer_def
                  NewSession_def numPlayers_def Let_def)
qed

theorem capacity_and_release_witness:
  "handleCommand reliable aliceLastQuestionOver (joinCommand ''Bob'' ''b1'') =
     Inr (\<lparr>Error = Some CapacityExceeded, RespSessionId = ''''\<rparr>, aliceLastQuestionOver)
   \<and> fst (projr (handleCommand reliable
        (snd (projr (handleCommand reliable aliceLastQuestionOver
                       (sessionCommand EndSession ''s1''))))
        (joinCommand ''Bob'' ''b1''))) = \<lparr>Error = None, RespSessionId = ''s1''\<rparr>"
  using capacity_and_release
          [where w = aliceLastQuestionOver and join = "joinCommand ''Bob'' ''b1''"
             and ends = "sessionCommand EndSession ''s1''" and e = reliable]
  by (simp add: aliceLastQuestionOver_def joinCommand_def sessionCommand_def reliable_def)

subsection \<open>What a published question carries\<close>

text \<open>
  C8. When the cursor points at a question, \<^verbatim>\<open>publishQuestion\<close> makes one call of
  \<^verbatim>\<open>Publish\<close>, under the name \<^verbatim>\<open>new_question\<close>, whose payload is the question's text
  and its list of possible answers, in order, and nothing else. Changing the
  \<^verbatim>\<open>CorrectAnswer\<close> of any questions of the session changes neither the events nor
  the error it returns.
\<close>

theorem new_question_payload:
  fixes f :: "Question \<Rightarrow> 64 word"
  assumes "heap w a = Some s"
      and "0 \<le> sint (currentQuestion s)"
      and "sint (currentQuestion s) < int (length (questions s))"
  defines "q \<equiv> questions s ! nat (sint (currentQuestion s))"
  defines "w' \<equiv> w\<lparr>heap := (heap w)(a \<mapsto>
                     s\<lparr>questions := map (\<lambda>x. x\<lparr>CorrectAnswer := f x\<rparr>) (questions s)\<rparr>)\<rparr>"
  shows "\<not> isl (publishQuestion e a w)
       \<and> trace (snd (projr (publishQuestion e a w))) =
           trace w @ [if publishFails e (publishCalls w)
                      then PublishFailed a ''new_question''
                      else Published a ''new_question''
                             (QuestionPayload (Question q) (PossibleAnswers q))]
       \<and> \<not> isl (publishQuestion e a w')
       \<and> trace (snd (projr (publishQuestion e a w'))) =
           trace (snd (projr (publishQuestion e a w)))
       \<and> fst (projr (publishQuestion e a w')) = fst (projr (publishQuestion e a w))"
  using assms
  by (simp add: publishQuestion_def Let_def resetVotes_def getCurrentQuestion_def Publish_def)

theorem new_question_payload_witness:
  "trace (snd (projr (publishQuestion reliable 0 aliceJoined))) =
     [Published 0 ''new_question'' (QuestionPayload ''2 + 2 = ?'' [''3'', ''4''])]
   \<and> trace (snd (projr (publishQuestion reliable 0
        (aliceJoined\<lparr>heap := [0 \<mapsto> aliceSession\<lparr>questions :=
             [demoQuestion\<lparr>CorrectAnswer := 0\<rparr>]\<rparr>]\<rparr>)))) =
     [Published 0 ''new_question'' (QuestionPayload ''2 + 2 = ?'' [''3'', ''4''])]"
  using new_question_payload
          [where w = aliceJoined and a = 0 and s = aliceSession and f = "\<lambda>x. 0"
             and e = reliable]
  by (simp add: aliceJoined_def aliceSession_def demoQuestion_def reliable_def)

subsection \<open>Filling a session\<close>

lemma join_waiting_step:
  assumes wr: "waitingRooms (mgr w) = fmupd sid a fmempty"
      and hp: "heap w a = Some s"
      and rf: "rangeFirst e (rangeCalls w) = sid"
      and fresh: "ID p \<notin> fmdom' (players s)"
      and room: "numPlayers s < sint (maxPlayersPerSession s)"
  shows "handleCommand e w (joinOf p) =
           Inr (\<lparr>Error = None, RespSessionId = sid\<rparr>,
                w\<lparr>rangeCalls := rangeCalls w + 1,
                  heap := (heap w)(a \<mapsto> s\<lparr>players := fmupd (ID p)
                              \<lparr>Name = Name p, ID = ID p, Score = 0, hasVoted = False\<rparr> (players s)\<rparr>),
                  started := started w @
                     (if numPlayers s + 1 = sint (maxPlayersPerSession s) then [a] else [])\<rparr>)"
proof -
  have ne: "waitingRooms (mgr w) \<noteq> fmempty"
    using wr by (metis fmempty_lookup fmupd_lookup option.distinct(1))
  have c: "card (insert (ID p) (fmdom' (players s))) = Suc (card (fmdom' (players s)))"
    using fresh by simp
  show ?thesis
    using ne wr hp rf room c
    by (simp add: handleCommand_def joinOf_def joinCommand_def AddPlayer_at_def
                  Session_AddPlayer_def numPlayers_def Let_def)
qed

lemma join_empty_step:
  assumes "waitingRooms (mgr w) = fmempty"
      and "sint (activeCount (mgr w)) < sint (maxSessions (mgr w))"
      and "0 < sint (mgrMaxPlayersPerSession (mgr w))"
  shows "handleCommand e w (joinOf p) =
           Inr (\<lparr>Error = None, RespSessionId = generateUniqueID e (nextAddr w)\<rparr>,
                w\<lparr>mgr := (mgr w)\<lparr>waitingRooms :=
                                     fmupd (generateUniqueID e (nextAddr w)) (nextAddr w) fmempty,
                                   activeCount := activeCount (mgr w) + 1\<rparr>,
                  heap := (heap w)(nextAddr w \<mapsto>
                     \<lparr>maxPlayersPerSession = mgrMaxPlayersPerSession (mgr w),
                      maxTimePerQuestion = 3000000000,
                      questions = mgrQuestions (mgr w),
                      SessionID = generateUniqueID e (nextAddr w),
                      players = fmupd (ID p)
                         \<lparr>Name = Name p, ID = ID p, Score = 0, hasVoted = False\<rparr> fmempty,
                      currentQuestion = 0\<rparr>),
                  nextAddr := nextAddr w + 1,
                  started := started w @
                     (if sint (mgrMaxPlayersPerSession (mgr w)) = 1 then [nextAddr w] else [])\<rparr>)"
  using assms
  by (simp add: handleCommand_def joinOf_def joinCommand_def createSession_def NewSession_def
                AddPlayer_at_def Session_AddPlayer_def numPlayers_def Let_def)

text \<open>
  Players with new, pairwise distinct ids join the one waiting session while it has
  room for all of them: every call succeeds, and the goroutine is started by the call
  that fills the session, if one does.
\<close>

lemma joins_into_waiting:
  assumes "waitingRooms (mgr w) = fmupd sid a fmempty"
      and "heap w a = Some s"
      and "\<forall>k. rangeFirst e k = sid"
      and "distinct (map ID ps)"
      and "ID ` set ps \<inter> fmdom' (players s) = {}"
      and "numPlayers s + int (length ps) \<le> sint (maxPlayersPerSession s)"
  shows "\<exists>s' w'. RunSessionManager e w (map joinOf ps) =
                    Inr (replicate (length ps) \<lparr>Error = None, RespSessionId = sid\<rparr>, w')
           \<and> mgr w' = mgr w \<and> nextAddr w' = nextAddr w \<and> trace w' = trace w
           \<and> heap w' a = Some s'
           \<and> fmdom' (players s') = fmdom' (players s) \<union> ID ` set ps
           \<and> maxPlayersPerSession s' = maxPlayersPerSession s
           \<and> SessionID s' = SessionID s
           \<and> currentQuestion s' = currentQuestion s
           \<and> questions s' = questions s
           \<and> started w' = started w @
                (if ps \<noteq> [] \<and> numPlayers s + int (length ps) = sint (maxPlayersPerSession s)
                 then [a] else [])"
  using assms
proof (induction ps arbitrary: w s)
  case Nil
  then show ?case by simp
next
  case (Cons p ps)
  let ?s1 = "s\<lparr>players := fmupd (ID p)
               \<lparr>Name = Name p, ID = ID p, Score = 0, hasVoted = False\<rparr> (players s)\<rparr>"
  let ?w1 = "w\<lparr>rangeCalls := rangeCalls w + 1,
               heap := (heap w)(a \<mapsto> ?s1),
               started := started w @
                  (if numPlayers s + 1 = sint (maxPlayersPerSession s) then [a] else [])\<rparr>"
  from Cons.prems have fresh: "ID p \<notin> fmdom' (players s)" by auto
  from Cons.prems have room: "numPlayers s < sint (maxPlayersPerSession s)" by simp
  from Cons.prems have rf: "rangeFirst e (rangeCalls w) = sid" by simp
  have step: "handleCommand e w (joinOf p) = Inr (\<lparr>Error = None, RespSessionId = sid\<rparr>, ?w1)"
    by (rule join_waiting_step [OF Cons.prems(1) Cons.prems(2) rf fresh room])
  have n1: "numPlayers ?s1 = numPlayers s + 1"
    using fresh by (simp add: numPlayers_def)
  have a1: "waitingRooms (mgr ?w1) = fmupd sid a fmempty" using Cons.prems(1) by simp
  have a2: "heap ?w1 a = Some ?s1" by simp
  have a4: "distinct (map ID ps)" using Cons.prems(4) by simp
  have a5: "ID ` set ps \<inter> fmdom' (players ?s1) = {}" using Cons.prems(4,5) by auto
  have a6: "numPlayers ?s1 + int (length ps) \<le> sint (maxPlayersPerSession ?s1)"
    using Cons.prems(6) n1 by simp
  from Cons.IH [OF a1 a2 Cons.prems(3) a4 a5 a6]
  obtain s' w' where
    run: "RunSessionManager e ?w1 (map joinOf ps) =
            Inr (replicate (length ps) \<lparr>Error = None, RespSessionId = sid\<rparr>, w')"
    and fr: "mgr w' = mgr ?w1" "nextAddr w' = nextAddr ?w1" "trace w' = trace ?w1"
    and hp: "heap w' a = Some s'"
    and dm: "fmdom' (players s') = fmdom' (players ?s1) \<union> ID ` set ps"
    and mx: "maxPlayersPerSession s' = maxPlayersPerSession ?s1"
    and si: "SessionID s' = SessionID ?s1"
    and cq: "currentQuestion s' = currentQuestion ?s1" "questions s' = questions ?s1"
    and st: "started w' = started ?w1 @
               (if ps \<noteq> [] \<and> numPlayers ?s1 + int (length ps) = sint (maxPlayersPerSession ?s1)
                then [a] else [])"
    by blast
  have st': "started w' = started w @
               (if numPlayers s + int (length (p # ps)) = sint (maxPlayersPerSession s)
                then [a] else [])"
  proof (cases "ps = []")
    case True
    with st show ?thesis by simp
  next
    case False
    then have pos: "1 \<le> int (length ps)" by (cases ps) simp_all
    have len: "int (length (p # ps)) = 1 + int (length ps)" by simp
    from Cons.prems(6) [unfolded len] pos
    have "numPlayers s + 1 \<noteq> sint (maxPlayersPerSession s)" by linarith
    with st n1 False show ?thesis by (simp add: add.assoc add.commute)
  qed
  show ?case
    apply (rule exI [of _ s'], rule exI [of _ w'])
    using step run fr hp dm mx si cq st'
    by auto
qed

text \<open>
  The same from the empty registry, where the first call creates the session: the
  goroutine is started exactly when as many players have joined as the session has
  places.
\<close>

lemma joins_from_empty:
  assumes dist: "distinct (map ID (p # ps))"
      and le: "int (length (p # ps)) \<le> sint mp"
      and ms: "0 < sint ms"
      and rf: "\<forall>k. rangeFirst e k = generateUniqueID e 0"
  shows "\<exists>s' w'. RunSessionManager e (initWorld ms mp qs) (map joinOf (p # ps)) =
                    Inr (replicate (length (p # ps))
                           \<lparr>Error = None, RespSessionId = generateUniqueID e 0\<rparr>, w')
           \<and> waitingRooms (mgr w') = fmupd (generateUniqueID e 0) 0 fmempty
           \<and> inProgress (mgr w') = fmempty
           \<and> nextAddr w' = 1 \<and> trace w' = []
           \<and> heap w' 0 = Some s'
           \<and> fmdom' (players s') = ID ` set (p # ps)
           \<and> SessionID s' = generateUniqueID e 0
           \<and> currentQuestion s' = 0 \<and> questions s' = qs
           \<and> started w' = (if int (length (p # ps)) = sint mp then [0] else [])"
proof -
  let ?sid = "generateUniqueID e 0"
  let ?w0 = "initWorld ms mp qs"
  let ?s1 = "\<lparr>maxPlayersPerSession = mp, maxTimePerQuestion = 3000000000, questions = qs,
              SessionID = ?sid,
              players = fmupd (ID p) \<lparr>Name = Name p, ID = ID p, Score = 0, hasVoted = False\<rparr> fmempty,
              currentQuestion = 0\<rparr>"
  let ?w1 = "?w0\<lparr>mgr := (mgr ?w0)\<lparr>waitingRooms := fmupd ?sid 0 fmempty,
                                     activeCount := activeCount (mgr ?w0) + 1\<rparr>,
                  heap := (heap ?w0)(0 \<mapsto> ?s1),
                  nextAddr := nextAddr ?w0 + 1,
                  started := started ?w0 @ (if sint mp = 1 then [0] else [])\<rparr>"
  have len: "int (length (p # ps)) = 1 + int (length ps)" by simp
  have mppos: "0 < sint mp" using le [unfolded len] by linarith
  have first: "handleCommand e ?w0 (joinOf p) = Inr (\<lparr>Error = None, RespSessionId = ?sid\<rparr>, ?w1)"
    using join_empty_step [of ?w0 e p] ms mppos
    by (simp add: initWorld_def NewSessionManager_def)
  have n1: "numPlayers ?s1 = 1" by (simp add: numPlayers_def)
  have b1: "waitingRooms (mgr ?w1) = fmupd ?sid 0 fmempty" by simp
  have b2: "heap ?w1 0 = Some ?s1" by simp
  have b4: "distinct (map ID ps)" using dist by simp
  have b5: "ID ` set ps \<inter> fmdom' (players ?s1) = {}" using dist by auto
  have b6: "numPlayers ?s1 + int (length ps) \<le> sint (maxPlayersPerSession ?s1)"
    using le [unfolded len] n1 by simp
  from joins_into_waiting [OF b1 b2 rf b4 b5 b6]
  obtain s' w' where
    rest: "RunSessionManager e ?w1 (map joinOf ps) =
            Inr (replicate (length ps) \<lparr>Error = None, RespSessionId = ?sid\<rparr>, w')"
    and fr: "mgr w' = mgr ?w1" "nextAddr w' = nextAddr ?w1" "trace w' = trace ?w1"
    and hp: "heap w' 0 = Some s'"
    and dm: "fmdom' (players s') = fmdom' (players ?s1) \<union> ID ` set ps"
    and si: "SessionID s' = SessionID ?s1"
    and cq: "currentQuestion s' = currentQuestion ?s1" "questions s' = questions ?s1"
    and st: "started w' = started ?w1 @
               (if ps \<noteq> [] \<and> numPlayers ?s1 + int (length ps) = sint (maxPlayersPerSession ?s1)
                then [0] else [])"
    by blast
  have runeq: "RunSessionManager e ?w0 (map joinOf (p # ps)) =
                 Inr (replicate (length (p # ps)) \<lparr>Error = None, RespSessionId = ?sid\<rparr>, w')"
    using first rest by simp
  have st1: "started w' = (if int (length (p # ps)) = sint mp then [0] else [])"
  proof (cases "ps = []")
    case True
    with st show ?thesis by (auto simp: initWorld_def)
  next
    case False
    then have pos: "1 \<le> int (length ps)" by (cases ps) simp_all
    from le [unfolded len] pos have "sint mp \<noteq> 1" by linarith
    with st False n1 show ?thesis by (simp add: initWorld_def)
  qed
  show ?thesis
    apply (rule exI [of _ s'], rule exI [of _ w'])
    using runeq fr hp dm si cq st1
    by (simp add: initWorld_def NewSessionManager_def)
qed

subsection \<open>The goroutine runs to its end\<close>

text \<open>
  \<^verbatim>\<open>endSession\<close> returns, and so does the question loop from a cursor that is not
  negative over a list of questions that a Go slice can hold; neither sends a
  \<^verbatim>\<open>MoveSessionToInProgress\<close> request.
\<close>

lemma endSession_runs:
  assumes "heap w a = Some s"
  shows "\<exists>w'. endSession e a w = Inr w' \<and> heap w' = heap w
              \<and> filter moveRequest (trace w') = filter moveRequest (trace w)"
  using assms
  by (simp add: endSession_def Publish_def handleCommand_def sessionCommand_def Let_def)

lemma questionLoop_runs:
  assumes "heap w a = Some s"
      and "0 \<le> sint (currentQuestion s)"
      and "int (length (questions s)) < 2 ^ 63"
  shows "\<exists>w'. questionLoop e a w = Inr w'
              \<and> filter moveRequest (trace w') = filter moveRequest (trace w)"
  using assms
proof (induction e a w arbitrary: s rule: questionLoop.induct)
  case (1 e a w)
  note hs = \<open>heap w a = Some s\<close>
  show ?case
  proof (cases "int (length (questions s)) \<le> sint (currentQuestion s)")
    case True
    let ?w1 = "snd (Publish e a ''quiz-update'' (ScoreBoard (players s)) w)"
    have h1: "heap ?w1 a = Some s" using hs by (simp add: Publish_def)
    have t1: "filter moveRequest (trace ?w1) = filter moveRequest (trace w)"
      by (simp add: Publish_def)
    from endSession_runs [OF h1, of e] obtain w' where
      "endSession e a ?w1 = Inr w'"
      "filter moveRequest (trace w') = filter moveRequest (trace ?w1)"
      by blast
    with True hs t1 show ?thesis
      by (subst questionLoop.simps) (simp add: publishScoreBoard_def)
  next
    case False
    let ?s1 = "resetVotes s"
    let ?q = "questions s ! nat (sint (currentQuestion s))"
    let ?wr = "w\<lparr>heap := (heap w)(a \<mapsto> ?s1)\<rparr>"
    let ?pub = "Publish e a ''new_question''
                  (QuestionPayload (Question ?q) (PossibleAnswers ?q)) ?wr"
    have pq: "publishQuestion e a w = Inr ?pub"
      using hs False 1(3)
      by (simp add: publishQuestion_def getCurrentQuestion_def resetVotes_def Let_def)
    obtain er w1 where pub: "?pub = (er, w1)" by (cases ?pub)
    have h1: "heap w1 a = Some ?s1"
      using pub by (auto simp: Publish_def split: if_splits)
    have t1: "filter moveRequest (trace w1) = filter moveRequest (trace w)"
      using pub by (auto simp: Publish_def split: if_splits)
    show ?thesis
    proof (cases "er = None")
      case False
      from endSession_runs [OF h1, of e] obtain w' where
        "endSession e a w1 = Inr w'"
        "filter moveRequest (trace w') = filter moveRequest (trace w1)"
        by blast
      with False \<open>\<not> int (length (questions s)) \<le> sint (currentQuestion s)\<close> hs pq pub t1
      show ?thesis
        by (subst questionLoop.simps) simp
    next
      case True
      let ?s2 = "moveToNextQuestion ?s1"
      let ?w2 = "moveToNextQuestion_at a w1"
      have h2: "heap ?w2 a = Some ?s2"
        using h1 by (simp add: moveToNextQuestion_at_def)
      have t2: "trace ?w2 = trace w1"
        using h1 by (simp add: moveToNextQuestion_at_def)
      have lt: "sint (currentQuestion s) < 2 ^ 63 - 1"
        using \<open>\<not> int (length (questions s)) \<le> sint (currentQuestion s)\<close> 1(4) by simp
      have c2: "0 \<le> sint (currentQuestion ?s2)"
        using 1(3) lt by (simp add: moveToNextQuestion_def resetVotes_def sint_inc)
      have l2: "int (length (questions ?s2)) < 2 ^ 63"
        using 1(4) by (simp add: moveToNextQuestion_def resetVotes_def)
      have nn: "\<not> er \<noteq> None" using True by simp
      from "1.IH" [OF hs \<open>\<not> int (length (questions s)) \<le> sint (currentQuestion s)\<close> pq
                      pub [symmetric] nn h2 c2 l2]
      obtain w' where
        "questionLoop e a ?w2 = Inr w'"
        "filter moveRequest (trace w') = filter moveRequest (trace ?w2)"
        by blast
      with True \<open>\<not> int (length (questions s)) \<le> sint (currentQuestion s)\<close> hs pq pub t1 t2
      show ?thesis
        by (subst questionLoop.simps) simp
    qed
  qed
qed

text \<open>
  C5, as the code has it. On the empty registry of a server that allows at least one
  session, as many \<^verbatim>\<open>JoinSession\<close> commands as a session has places, by players with
  pairwise distinct ids: every command succeeds with the id of the one session that is
  created; no goroutine is started by the calls before the last, and the last starts
  \<^verbatim>\<open>startQuiz\<close> once, for that session; the session holds exactly the ids given, as
  many as \<^verbatim>\<open>maxPlayersPerSession\<close>. That goroutine first sends its
  \<^verbatim>\<open>MoveSessionToInProgress\<close> request, which, handled in the world the calls leave,
  moves the session from \<^verbatim>\<open>waitingRooms\<close> to \<^verbatim>\<open>inProgress\<close>; a second such command
  would fail with \<open>SessionNotFound\<close>, and the goroutine, which runs to its end whatever
  its publishes return, sends no second one.
  (With one waiting session the \<^verbatim>\<open>range\<close> loop yields its id, which is the hypothesis
  on \<open>rangeFirst\<close>; a Go slice has fewer than 2^63 elements, which is the hypothesis on
  the questions.)
\<close>

theorem joins_fill_one_session:
  fixes qs :: "Question list" and e :: env
  assumes dist: "distinct (map ID (p # ps))"
      and mp: "sint mp = int (length (p # ps))"
      and ms: "0 < sint ms"
      and rf: "\<forall>k. rangeFirst e k = generateUniqueID e 0"
      and ql: "int (length qs) < 2 ^ 63"
  defines "sid \<equiv> generateUniqueID e 0"
  defines "run \<equiv> RunSessionManager e (initWorld ms mp qs) (map joinOf (p # ps))"
  defines "joined \<equiv> snd (projr run)"
  defines "moved \<equiv>
             handleCommand e
               (joined\<lparr>trace := trace joined @ [Requested 0 MoveSessionToInProgress sid]\<rparr>)
               (sessionCommand MoveSessionToInProgress sid)"
  shows "\<not> isl run
       \<and> fst (projr run) = replicate (length (p # ps)) \<lparr>Error = None, RespSessionId = sid\<rparr>
       \<and> (\<forall>k < length (p # ps).
             started (snd (projr (RunSessionManager e (initWorld ms mp qs)
                                    (map joinOf (take k (p # ps)))))) = [])
       \<and> started joined = [0]
       \<and> nextAddr joined = 1
       \<and> waitingRooms (mgr joined) = fmupd sid 0 fmempty
       \<and> inProgress (mgr joined) = fmempty
       \<and> (\<exists>s. heap joined 0 = Some s
                \<and> fmdom' (players s) = ID ` set (p # ps)
                \<and> numPlayers s = sint mp
                \<and> SessionID s = sid)
       \<and> startQuiz e 0 joined =
           (case Publish e 0 ''quiz-update'' (Text ''Quiz starting in 3 seconds'')
                   (snd (projr moved)) of
              (er, w2) \<Rightarrow>
                (case (if er \<noteq> None then endSession e 0 w2 else Inr w2) of
                   Inl f \<Rightarrow> Inl f
                 | Inr w3 \<Rightarrow> questionLoop e 0 w3))
       \<and> \<not> isl moved
       \<and> Error (fst (projr moved)) = None
       \<and> waitingRooms (mgr (snd (projr moved))) = fmempty
       \<and> inProgress (mgr (snd (projr moved))) = fmupd sid 0 fmempty
       \<and> handleCommand e (snd (projr moved)) (sessionCommand MoveSessionToInProgress sid) =
           Inr (\<lparr>Error = Some SessionNotFound, RespSessionId = ''''\<rparr>, snd (projr moved))
       \<and> \<not> isl (startQuiz e 0 joined)
       \<and> filter moveRequest (trace (projr (startQuiz e 0 joined))) =
           [Requested 0 MoveSessionToInProgress sid]"
proof -
  let ?w0 = "initWorld ms mp qs"
  have le: "int (length (p # ps)) \<le> sint mp" using mp by simp
  from joins_from_empty [OF dist le ms rf, of qs]
  obtain s' w' where
    runeq: "run = Inr (replicate (length (p # ps)) \<lparr>Error = None, RespSessionId = sid\<rparr>, w')"
    and wr: "waitingRooms (mgr w') = fmupd sid 0 fmempty"
    and ip: "inProgress (mgr w') = fmempty"
    and na: "nextAddr w' = 1" and tr: "trace w' = []"
    and hp: "heap w' 0 = Some s'"
    and dm: "fmdom' (players s') = ID ` set (p # ps)"
    and si: "SessionID s' = sid"
    and cq: "currentQuestion s' = 0" "questions s' = qs"
    and st: "started w' = [0]"
    unfolding run_def sid_def using mp by auto
  have jw: "joined = w'" using runeq by (simp add: joined_def)
  have early: "started (snd (projr (RunSessionManager e ?w0 (map joinOf (take k (p # ps)))))) = []"
    if k: "k < length (p # ps)" for k
  proof (cases k)
    case 0
    then show ?thesis by (simp add: initWorld_def)
  next
    case (Suc j)
    with k have j: "j < length ps" by simp
    have tk: "take k (p # ps) = p # take j ps" using Suc by simp
    have d: "distinct (map ID (p # take j ps))"
      using dist by (auto simp: take_map [symmetric] dest: in_set_takeD)
    have lj: "int (length (p # take j ps)) < sint mp"
      using j mp by simp
    then have lej: "int (length (p # take j ps)) \<le> sint mp" by simp
    from joins_from_empty [OF d lej ms rf, of qs]
    obtain sj wj where
      "RunSessionManager e ?w0 (map joinOf (p # take j ps)) =
         Inr (replicate (length (p # take j ps))
                \<lparr>Error = None, RespSessionId = generateUniqueID e 0\<rparr>, wj)"
      "started wj = (if int (length (p # take j ps)) = sint mp then [0] else [])"
      by blast
    with lj tk show ?thesis by simp
  qed
  have card: "numPlayers s' = sint mp"
  proof -
    have "card (fmdom' (players s')) = card (ID ` set (p # ps))" using dm by simp
    also have "\<dots> = length (p # ps)"
      using dist by (metis distinct_card length_map list.set_map)
    finally show ?thesis using mp by (simp add: numPlayers_def)
  qed
  let ?wq = "w'\<lparr>trace := trace w' @ [Requested 0 MoveSessionToInProgress sid]\<rparr>"
  let ?wm = "?wq\<lparr>mgr := (mgr w')\<lparr>inProgress := fmupd sid 0 fmempty, waitingRooms := fmempty\<rparr>\<rparr>"
  have mv: "moved = Inr (\<lparr>Error = None, RespSessionId = ''''\<rparr>, ?wm)"
    using wr ip jw
    by (simp add: moved_def handleCommand_def sessionCommand_def fmdrop_fmupd)
  have again: "handleCommand e ?wm (sessionCommand MoveSessionToInProgress sid) =
                 Inr (\<lparr>Error = Some SessionNotFound, RespSessionId = ''''\<rparr>, ?wm)"
    by (simp add: handleCommand_def sessionCommand_def)
  let ?rest = "case Publish e 0 ''quiz-update'' (Text ''Quiz starting in 3 seconds'') ?wm of
                 (er, w2) \<Rightarrow>
                   (case (if er \<noteq> None then endSession e 0 w2 else Inr w2) of
                      Inl f \<Rightarrow> Inl f
                    | Inr w3 \<Rightarrow> questionLoop e 0 w3)"
  have sq: "startQuiz e 0 w' = ?rest"
    using hp si wr ip
    by (simp add: startQuiz_def handleCommand_def sessionCommand_def fmdrop_fmupd Let_def)
  obtain er w2 where pub: "Publish e 0 ''quiz-update'' (Text ''Quiz starting in 3 seconds'') ?wm = (er, w2)"
    by (cases "Publish e 0 ''quiz-update'' (Text ''Quiz starting in 3 seconds'') ?wm")
  have h2: "heap w2 0 = Some s'"
    using pub hp by (auto simp: Publish_def split: if_splits)
  have t2: "filter moveRequest (trace w2) = [Requested 0 MoveSessionToInProgress sid]"
    using pub tr by (auto simp: Publish_def split: if_splits)
  obtain w3 where
    w3: "(if er \<noteq> None then endSession e 0 w2 else Inr w2) = Inr w3"
    and h3: "heap w3 0 = Some s'"
    and t3: "filter moveRequest (trace w3) = [Requested 0 MoveSessionToInProgress sid]"
  proof (cases "er = None")
    case True
    with h2 t2 that show ?thesis by simp
  next
    case False
    from endSession_runs [OF h2, of e] obtain w3 where
      "endSession e 0 w2 = Inr w3" "heap w3 = heap w2"
      "filter moveRequest (trace w3) = filter moveRequest (trace w2)"
      by blast
    with False h2 t2 that show ?thesis by simp
  qed
  have c3: "0 \<le> sint (currentQuestion s')" using cq by simp
  have l3: "int (length (questions s')) < 2 ^ 63" using cq ql by simp
  from questionLoop_runs [OF h3 c3 l3, of e] obtain wf where
    wf: "questionLoop e 0 w3 = Inr wf"
    and tf: "filter moveRequest (trace wf) = filter moveRequest (trace w3)"
    by blast
  have whole: "startQuiz e 0 w' = Inr wf"
    using sq pub w3 wf by simp
  have c1: "\<not> isl run"
    and c2: "fst (projr run) = replicate (length (p # ps)) \<lparr>Error = None, RespSessionId = sid\<rparr>"
    using runeq by simp_all
  have c3: "\<forall>k < length (p # ps).
              started (snd (projr (RunSessionManager e (initWorld ms mp qs)
                                     (map joinOf (take k (p # ps)))))) = []"
    using early by blast
  have c4: "started joined = [0]" and c5: "nextAddr joined = 1"
    and c6: "waitingRooms (mgr joined) = fmupd sid 0 fmempty"
    and c7: "inProgress (mgr joined) = fmempty"
    using jw st na wr ip by simp_all
  have c8: "\<exists>s. heap joined 0 = Some s \<and> fmdom' (players s) = ID ` set (p # ps)
               \<and> numPlayers s = sint mp \<and> SessionID s = sid"
    using jw hp dm card si by blast
  have c9: "startQuiz e 0 joined =
              (case Publish e 0 ''quiz-update'' (Text ''Quiz starting in 3 seconds'')
                      (snd (projr moved)) of
                 (er, w2) \<Rightarrow>
                   (case (if er \<noteq> None then endSession e 0 w2 else Inr w2) of
                      Inl f \<Rightarrow> Inl f
                    | Inr w3 \<Rightarrow> questionLoop e 0 w3))"
    unfolding jw mv using sq by simp
  have c10: "\<not> isl moved" and c11: "Error (fst (projr moved)) = None"
    and c12: "waitingRooms (mgr (snd (projr moved))) = fmempty"
    and c13: "inProgress (mgr (snd (projr moved))) = fmupd sid 0 fmempty"
    unfolding mv by simp_all
  have c14: "handleCommand e (snd (projr moved)) (sessionCommand MoveSessionToInProgress sid) =
               Inr (\<lparr>Error = Some SessionNotFound, RespSessionId = ''''\<rparr>, snd (projr moved))"
    unfolding mv using again by simp
  have c15: "\<not> isl (startQuiz e 0 joined)"
    and c16: "filter moveRequest (trace (projr (startQuiz e 0 joined))) =
                [Requested 0 MoveSessionToInProgress sid]"
    unfolding jw whole using tf t3 by simp_all
  show ?thesis
    by (intro conjI) (rule c1 c2 c3 c4 c5 c6 c7 c8 c9 c10 c11 c12 c13 c14 c15 c16)+
qed

theorem joins_fill_one_session_witness:
  "started (snd (projr (RunSessionManager reliable (initWorld 1 2 [demoQuestion])
                          (map joinOf [alice, bob])))) = [0]
   \<and> started (snd (projr (RunSessionManager reliable (initWorld 1 2 [demoQuestion])
                          (map joinOf [alice])))) = []
   \<and> filter moveRequest
        (trace (projr (startQuiz reliable 0
           (snd (projr (RunSessionManager reliable (initWorld 1 2 [demoQuestion])
                          (map joinOf [alice, bob]))))))) =
       [Requested 0 MoveSessionToInProgress ''s1'']"
proof -
  have d: "distinct (map ID (alice # [bob]))" by (simp add: alice_def bob_def)
  have m: "sint (2 :: 64 word) = int (length (alice # [bob]))" by simp
  have s: "0 < sint (1 :: 64 word)" by simp
  have r: "\<forall>k. rangeFirst reliable k = generateUniqueID reliable 0" by (simp add: reliable_def)
  have q: "int (length [demoQuestion]) < 2 ^ 63" by simp
  note t = joins_fill_one_session [OF d m s r q]
  note filled = t [THEN conjunct2, THEN conjunct2, THEN conjunct2, THEN conjunct1]
  note early = t [THEN conjunct2, THEN conjunct2, THEN conjunct1, rule_format, of 1]
  note once = t [THEN conjunct2, THEN conjunct2, THEN conjunct2, THEN conjunct2,
                 THEN conjunct2, THEN conjunct2, THEN conjunct2, THEN conjunct2,
                 THEN conjunct2, THEN conjunct2, THEN conjunct2, THEN conjunct2,
                 THEN conjunct2, THEN conjunct2, THEN conjunct2]
  from filled
  have "started (snd (projr (RunSessionManager reliable (initWorld 1 2 [demoQuestion])
                          (map joinOf [alice, bob])))) = [0]" .
  moreover
  from early
  have "started (snd (projr (RunSessionManager reliable (initWorld 1 2 [demoQuestion])
                          (map joinOf [alice])))) = []"
    by simp
  moreover
  from once
  have "filter moveRequest
        (trace (projr (startQuiz reliable 0
           (snd (projr (RunSessionManager reliable (initWorld 1 2 [demoQuestion])
                          (map joinOf [alice, bob]))))))) =
       [Requested 0 MoveSessionToInProgress (generateUniqueID reliable 0)]" .
  moreover
  have "generateUniqueID reliable 0 = ''s1''" by (simp add: reliable_def)
  ultimately show ?thesis by simp
qed

text \<open>
  C5 as stated fails when two of the calls carry the same player id: with two places,
  Alice and then Bob join under the id \<^verbatim>\<open>a1\<close>. Both calls succeed, Bob's entry
  replaces Alice's, the session has one player, stays in \<^verbatim>\<open>waitingRooms\<close>, and no
  goroutine is started. (And a server configured for no session at all creates none.)
\<close>

theorem same_id_joins_start_nothing:
  "RunSessionManager reliable (initWorld 0 1 [demoQuestion]) [joinCommand ''Alice'' ''a1''] =
     Inr ([\<lparr>Error = Some CapacityExceeded, RespSessionId = ''''\<rparr>],
          initWorld 0 1 [demoQuestion])
   \<and> RunSessionManager reliable (initWorld 1 2 [demoQuestion])
      [joinCommand ''Alice'' ''a1'', joinCommand ''Bob'' ''a1''] =
     Inr ([\<lparr>Error = None, RespSessionId = ''s1''\<rparr>, \<lparr>Error = None, RespSessionId = ''s1''\<rparr>],
          \<lparr>mgr = \<lparr>waitingRooms = fmupd ''s1'' 0 fmempty, inProgress = fmempty,
                  mgrMaxPlayersPerSession = 2, activeCount = 1, maxSessions = 1,
                  mgrQuestions = [demoQuestion]\<rparr>,
           heap = [0 \<mapsto> \<lparr>maxPlayersPerSession = 2, maxTimePerQuestion = 3000000000,
                           questions = [demoQuestion], SessionID = ''s1'',
                           players = fmupd ''a1''
                             \<lparr>Name = ''Bob'', ID = ''a1'', Score = 0, hasVoted = False\<rparr> fmempty,
                           currentQuestion = 0\<rparr>],
           nextAddr = 1, rangeCalls = 1, publishCalls = 0, started = [], trace = []\<rparr>)"
  by (simp add: handleCommand_def createSession_def AddPlayer_at_def Session_AddPlayer_def
                NewSession_def numPlayers_def Let_def initWorld_def NewSessionManager_def
                joinCommand_def fmdrop_fmupd
                reliable_def)

subsection \<open>The registry invariant\<close>

text \<open>
  Every command keeps the invariant, except an \<^verbatim>\<open>EndSession\<close> for an id that is not
  in progress (\<open>generateUniqueID\<close> is taken to return an id not in use).
\<close>

lemma registry_inv_kept:
  assumes inv: "registry_inv (mgr w)"
      and run: "handleCommand e w cmd = Inr (r, w')"
      and known: "CommandType cmd = EndSession \<Longrightarrow> SessionId cmd \<in> fmdom' (inProgress (mgr w))"
      and unique: "generateUniqueID e (nextAddr w) \<notin> fmdom' (inProgress (mgr w))"
  shows "registry_inv (mgr w')"
proof (cases "CommandType cmd")
  case SubmitAnswer
  with run have "mgr w' = mgr w"
    by (auto simp: handleCommand_def Let_def split: option.splits sum.splits)
  with inv show ?thesis by simp
next
  case JoinSession
  show ?thesis
  proof (cases "waitingRooms (mgr w) = fmempty")
    case False
    with run JoinSession have "mgr w' = mgr w"
      by (auto simp: handleCommand_def AddPlayer_at_def Let_def
               split: option.splits sum.splits prod.splits)
    with inv show ?thesis by simp
  next
    case True
    show ?thesis
    proof (cases "sint (maxSessions (mgr w)) \<le> sint (activeCount (mgr w))")
      case full: True
      with run JoinSession \<open>waitingRooms (mgr w) = fmempty\<close> have "w' = w"
        by (auto simp: handleCommand_def createSession_def Let_def)
      with inv show ?thesis by simp
    next
      case room: False
      then have up: "sint (activeCount (mgr w) + 1) = sint (activeCount (mgr w)) + 1"
        by (simp add: sint_inc_below [of _ "maxSessions (mgr w)"])
      from run JoinSession True room inv unique up show ?thesis
        by (auto simp: handleCommand_def createSession_def AddPlayer_at_def Let_def
                       registry_inv_def
                 split: option.splits sum.splits prod.splits if_splits)
    qed
  qed
next
  case MoveSessionToInProgress
  show ?thesis
  proof (cases "fmlookup (waitingRooms (mgr w)) (SessionId cmd)")
    case None
    with run MoveSessionToInProgress have "w' = w" by (simp add: handleCommand_def Let_def)
    with inv show ?thesis by simp
  next
    case (Some a)
    then have inw: "SessionId cmd \<in> fmdom' (waitingRooms (mgr w))" by (rule fmdom'I)
    with inv have notin: "SessionId cmd \<notin> fmdom' (inProgress (mgr w))"
      by (auto simp: registry_inv_def)
    from inw have pos: "0 < card (fmdom' (waitingRooms (mgr w)))"
      by (auto simp: card_gt_0_iff)
    from run MoveSessionToInProgress Some
    have m': "mgr w' = (mgr w)\<lparr>inProgress := fmupd (SessionId cmd) a (inProgress (mgr w)),
                               waitingRooms := fmdrop (SessionId cmd) (waitingRooms (mgr w))\<rparr>"
      by (auto simp: handleCommand_def Let_def)
    from inv inw notin pos show ?thesis
      unfolding m' registry_inv_def
      by (auto simp: card_Diff_singleton)
  qed
next
  case EndSession
  with known have inp: "SessionId cmd \<in> fmdom' (inProgress (mgr w))" by simp
  then have pos: "0 < card (fmdom' (inProgress (mgr w)))"
    by (auto simp: card_gt_0_iff)
  with inv have "sint (0 :: 64 word) < sint (activeCount (mgr w))"
    by (simp add: registry_inv_def)
  then have down: "sint (activeCount (mgr w) - 1) = sint (activeCount (mgr w)) - 1"
    by (rule sint_dec_above)
  from run EndSession
  have m': "mgr w' = (mgr w)\<lparr>activeCount := activeCount (mgr w) - 1,
                             inProgress := fmdrop (SessionId cmd) (inProgress (mgr w))\<rparr>"
    by (auto simp: handleCommand_def Let_def)
  from inv inp pos down show ?thesis
    unfolding m' registry_inv_def
    by (auto simp: card_Diff_singleton)
next
  case OtherCommandType
  with run have "w' = w" by (simp add: handleCommand_def Let_def)
  with inv show ?thesis by simp
qed

text \<open>
  C4. The code breaks the invariant. In the server for one session of one player, after
  Alice's \<^verbatim>\<open>JoinSession\<close> the invariant holds. Her session's goroutine then runs with a
  first \<^verbatim>\<open>Publish\<close> (the "Quiz starting" notice) that fails: it sends \<^verbatim>\<open>EndSession\<close>
  twice, and the manager, which subtracts one from \<^verbatim>\<open>activeCount\<close> also for an id it
  does not find, ends with both partitions empty and \<^verbatim>\<open>activeCount\<close> at -1.
\<close>

theorem registry_inv_broken_by_second_EndSession:
  "registry_inv (mgr aliceJoined)
   \<and> map_sum id mgr (startQuiz firstPublishFails 0 aliceJoined) = Inr overdrawn
   \<and> \<not> registry_inv overdrawn"
  by (simp add: startQuiz_def endSession_def Publish_def publishQuestion_def
                publishScoreBoard_def sessionCommand_def zeroPlayer_def resetVotes_def
                getCurrentQuestion_def moveToNextQuestion_at_def moveToNextQuestion_def
                fmmap_fmupd fmdrop_fmupd handleCommand_def Let_def numeral_2_eq_2
                questionLoop.simps aliceJoined_def aliceSession_def alice_def
                firstPublishFails_def registry_inv_def overdrawn_def)

subsection \<open>The goroutine after a failed publish\<close>

text \<open>
  C3. The code does not abort after a failed "Quiz starting" notice. In the same run
  as above the goroutine calls \<^verbatim>\<open>endSession\<close> (end-of-quiz event, \<^verbatim>\<open>EndSession\<close>
  request, cancel) and then goes on: it publishes the question, the score board and a
  second end-of-quiz event, and sends a second \<^verbatim>\<open>EndSession\<close> request. When every
  later \<^verbatim>\<open>Publish\<close> fails too, it still tries to publish the question and still sends
  the second \<^verbatim>\<open>EndSession\<close>.
\<close>

theorem startQuiz_goes_on_after_failed_notice:
  "map_sum id trace (startQuiz firstPublishFails 0 aliceJoined) =
     Inr [Requested 0 MoveSessionToInProgress ''s1'',
          PublishFailed 0 ''quiz-update'',
          Published 0 ''quiz-end'' (Text ''thank you for playing''),
          Requested 0 EndSession ''s1'',
          Cancelled 0,
          Published 0 ''new_question'' (QuestionPayload ''2 + 2 = ?'' [''3'', ''4'']),
          Published 0 ''quiz-update'' (ScoreBoard (fmupd ''a1'' alice fmempty)),
          Published 0 ''quiz-end'' (Text ''thank you for playing''),
          Requested 0 EndSession ''s1'',
          Cancelled 0]
   \<and> map_sum id trace (startQuiz nothingPublishes 0 aliceJoined) =
     Inr [Requested 0 MoveSessionToInProgress ''s1'',
          PublishFailed 0 ''quiz-update'',
          PublishFailed 0 ''quiz-end'',
          Requested 0 EndSession ''s1'',
          Cancelled 0,
          PublishFailed 0 ''new_question'',
          PublishFailed 0 ''quiz-end'',
          Requested 0 EndSession ''s1'',
          Cancelled 0]"
  by (simp add: startQuiz_def endSession_def Publish_def publishQuestion_def
                publishScoreBoard_def sessionCommand_def zeroPlayer_def resetVotes_def
                getCurrentQuestion_def moveToNextQuestion_at_def moveToNextQuestion_def
                fmmap_fmupd fmdrop_fmupd handleCommand_def Let_def numeral_2_eq_2
                questionLoop.simps aliceJoined_def aliceSession_def alice_def
                firstPublishFails_def nothingPublishes_def demoQuestion_def)

subsection \<open>An answer after the last question\<close>

text \<open>
  C10. The read of the current question can be out of bounds. With every publish
  succeeding, the goroutine of Alice's session reaches the exit of its loop in the world
  \<open>aliceLastQuestionOver\<close>: the cursor is 1, the number of questions, and the session is
  still in \<^verbatim>\<open>inProgress\<close>, where it stays until the manager handles the \<^verbatim>\<open>EndSession\<close>
  that the goroutine sends after two more calls of \<^verbatim>\<open>Publish\<close>. Alice has not answered,
  so her flag is clear. Her \<^verbatim>\<open>SubmitAnswer\<close>, handled now, reaches
  \<^verbatim>\<open>s.questions[s.currentQuestion]\<close> and panics.
\<close>

theorem SubmitAnswer_after_last_question_panics:
  "startQuiz reliable 0 aliceJoined = questionLoop reliable 0 aliceLastQuestionOver
   \<and> fmlookup (inProgress (mgr aliceLastQuestionOver)) ''s1'' = Some 0
   \<and> handleCommand reliable aliceLastQuestionOver (submitCommand ''s1'' ''a1'' 1) =
       Inl IndexOutOfRange"
proof -
  have "startQuiz reliable 0 aliceJoined = questionLoop reliable 0 aliceLastQuestionOver"
    apply (simp add: startQuiz_def endSession_def Publish_def publishQuestion_def
                publishScoreBoard_def sessionCommand_def zeroPlayer_def resetVotes_def
                getCurrentQuestion_def moveToNextQuestion_at_def moveToNextQuestion_def
                fmmap_fmupd fmdrop_fmupd handleCommand_def Let_def numeral_2_eq_2
                aliceJoined_def aliceSession_def alice_def reliable_def
                     demoQuestion_def)
    apply (subst questionLoop.simps)
    apply (simp add: startQuiz_def endSession_def Publish_def publishQuestion_def
                publishScoreBoard_def sessionCommand_def zeroPlayer_def resetVotes_def
                getCurrentQuestion_def moveToNextQuestion_at_def moveToNextQuestion_def
                fmmap_fmupd fmdrop_fmupd handleCommand_def Let_def numeral_2_eq_2
                aliceLastQuestionOver_def aliceSession_def alice_def
                     demoQuestion_def)
    done
  moreover
  have "handleCommand reliable aliceLastQuestionOver (submitCommand ''s1'' ''a1'' 1) =
          Inl IndexOutOfRange"
    by (simp add: handleCommand_def submitCommand_def aliceLastQuestionOver_def aliceSession_def
                  alice_def Session_SubmitAnswer_def getCurrentQuestion_def)
  ultimately show ?thesis by (simp add: aliceLastQuestionOver_def)
qed

end
